theory Spec2Isabelle
  imports Complex_Main
begin

section \<open>Python values used by \<open>qutip/fileio.py\<close>\<close>

text \<open>
  Exceptions are values.  A \<open>ValueError\<close> carries the message of the \<open>raise\<close> statement
  that produced it, so that the different \<open>ValueError\<close>s of the module stay apart.
  \<open>FileNotFoundError\<close> carries the file name; \<open>OSError\<close> stands for the other errors of the
  operating system and carries the error number and the file name.
\<close>

datatype error =
    ValueError string
  | IndexError
  | UnboundLocalError string
  | FileNotFoundError string
  | OSError nat string
  | PicklingError
  | UnpicklingError

text \<open>
  Text is \<open>string\<close>; a character is one code point below 256.  \<open>is_space\<close> is
  \<open>str.isspace\<close> on that range: it is the set of characters that \<open>str.rstrip()\<close> and
  \<open>str.split()\<close> (both without argument) treat as white space.
\<close>

definition is_space :: "char \<Rightarrow> bool" where
  "is_space c \<longleftrightarrow>
     c \<in> set [CHR 0x09, CHR 0x0A, CHR 0x0B, CHR 0x0C, CHR 0x0D,
              CHR 0x1C, CHR 0x1D, CHR 0x1E, CHR 0x1F, CHR 0x20, CHR 0x85, CHR 0xA0]"

text \<open>\<open>line.rstrip()\<close>\<close>

definition rstrip :: "string \<Rightarrow> string" where
  "rstrip s = rev (dropWhile is_space (rev s))"

text \<open>
  \<open>s.split(sep)\<close> for a non-empty \<open>sep\<close>: the occurrences of \<open>sep\<close> are found from the
  left, without overlap; \<open>cur\<close> holds the current field, reversed.
\<close>

fun split_sep :: "string \<Rightarrow> string \<Rightarrow> string \<Rightarrow> string list" where
  "split_sep sep cur [] = [rev cur]"
| "split_sep sep cur (c # cs) =
     (if sep \<noteq> [] \<and> take (length sep) (c # cs) = sep
      then rev cur # split_sep sep [] (drop (length sep - 1) cs)
      else split_sep sep (c # cur) cs)"

text \<open>\<open>s.split()\<close>: the maximal runs of characters that are not white space.\<close>

fun split_ws :: "string \<Rightarrow> string \<Rightarrow> string list" where
  "split_ws cur [] = (if cur = [] then [] else [rev cur])"
| "split_ws cur (c # cs) =
     (if is_space c
      then (if cur = [] then split_ws [] cs else rev cur # split_ws [] cs)
      else split_ws (c # cur) cs)"

text \<open>
  The fields of \<open>s.split(sep)\<close> for the \<open>sep\<close> of the module, which is \<open>None\<close> or a
  string.  Python refuses the empty string: that is the \<open>ValueError\<close> of \<open>py_split\<close>.
\<close>

definition split_fields :: "string option \<Rightarrow> string \<Rightarrow> string list" where
  "split_fields sep s = (case sep of None \<Rightarrow> split_ws [] s | Some d \<Rightarrow> split_sep d [] s)"

definition py_split :: "string option \<Rightarrow> string \<Rightarrow> error + string list" where
  "py_split sep s =
     (if sep = Some [] then Inl (ValueError ''empty separator'') else Inr (split_fields sep s))"

section \<open>Text files\<close>

text \<open>
  The file system maps a path to the content of the file there.  A file opened for
  reading in text mode is iterated line by line: \<open>universal_newlines\<close> is the translation
  of \<open>\r\n\<close> and \<open>\r\<close> to \<open>\n\<close> that the default \<open>newline=None\<close> performs, and \<open>text_lines\<close>
  cuts the text after every \<open>\n\<close>, which stays at the end of its line.
\<close>

type_synonym filesystem = "string \<rightharpoonup> string"

fun universal_newlines :: "string \<Rightarrow> string" where
  "universal_newlines [] = []"
| "universal_newlines (c # cs) =
     (if c = CHR 0x0D
      then (case cs of
              [] \<Rightarrow> [CHR 0x0A]
            | d # ds \<Rightarrow> if d = CHR 0x0A then CHR 0x0A # universal_newlines ds
                        else CHR 0x0A # universal_newlines cs)
      else c # universal_newlines cs)"

fun cut_lines :: "string \<Rightarrow> string \<Rightarrow> string list" where
  "cut_lines cur [] = (if cur = [] then [] else [rev cur])"
| "cut_lines cur (c # cs) =
     (if c = CHR 0x0A then rev (c # cur) # cut_lines [] cs
      else cut_lines (c # cur) cs)"

definition text_lines :: "string \<Rightarrow> string list" where
  "text_lines content = cut_lines [] (universal_newlines content)"

section \<open>\<open>file_data_read\<close>\<close>

text \<open>A line is skipped when its first character is \<open>#\<close> or \<open>%\<close>.\<close>

definition is_comment :: "string \<Rightarrow> bool" where
  "is_comment line \<longleftrightarrow> (case line of [] \<Rightarrow> False | c # _ \<Rightarrow> c = CHR ''#'' \<or> c = CHR ''%'')"

text \<open>
  The \<open>if\<close>/\<open>elif\<close> chain under \<open># find delim\<close>: the new value of \<open>sep\<close>, or the
  \<open>ValueError\<close> of its last branch.
\<close>

definition find_delim :: "string \<Rightarrow> error + string option" where
  "find_delim line =
     (if length (split_sep '','' [] (rstrip line)) > 1 then Inr (Some '','')
      else if length (split_sep '';'' [] (rstrip line)) > 1 then Inr (Some '';'')
      else if length (split_sep '':'' [] (rstrip line)) > 1 then Inr (Some '':'')
      else if length (split_sep ''|'' [] (rstrip line)) > 1 then Inr (Some ''|'')
      else if length (split_ws [] (rstrip line)) > 1 then Inr None
      else Inl (ValueError ''Unrecognized column deliminator''))"

text \<open>
  The local variables of the first loop.  \<open>numtype\<close> and \<open>numformat\<close> are unbound until
  the first data line has been seen.
\<close>

record scan =
  M :: nat
  N :: nat
  sep :: "string option"
  numtype :: "string option"
  numformat :: "string option"

definition scan0 :: "string option \<Rightarrow> scan" where
  "scan0 s = \<lparr>M = 0, N = 0, sep = s, numtype = None, numformat = None\<rparr>"

text \<open>The first loop, \<open>for line in f\<close>, which counts the lines and the columns.\<close>

fun count_pass :: "scan \<Rightarrow> string list \<Rightarrow> error + scan" where
  "count_pass st [] = Inr st"
| "count_pass st (line # rest) =
     (case line of
        [] \<Rightarrow> Inl IndexError
      | c # _ \<Rightarrow>
          if c = CHR ''#'' \<or> c = CHR ''%'' then count_pass st rest
          else
            (case (if N st = 0 \<and> sep st = None then find_delim line else Inr (sep st)) of
               Inl e \<Rightarrow> Inl e
             | Inr sp \<Rightarrow>
                 (case py_split sp line of
                    Inl e \<Rightarrow> Inl e
                  | Inr line_vec \<Rightarrow>
                      let n = length line_vec in
                      if N st = 0 \<and> n > 0 then
                        count_pass
                          (st\<lparr>sep := sp, N := n,
                              numtype :=
                                Some (if CHR ''j'' \<in> set (hd line_vec) \<or> CHR ''i'' \<in> set (hd line_vec)
                                      then ''complex'' else ''np.real''),
                              numformat :=
                                Some (if CHR ''e'' \<in> set (hd line_vec) \<or> CHR ''E'' \<in> set (hd line_vec)
                                      then ''exp'' else ''decimal''),
                              M := M st + 1\<rparr>)
                          rest
                      else if N st \<noteq> n then
                        Inl (ValueError ''Badly formatted data file: unequal number of columns'')
                      else count_pass (st\<lparr>sep := sp, M := M st + 1\<rparr>) rest)))"

text \<open>
  The second loop.  \<open>data[m, n] = conv(item)\<close> converts first and stores second; the
  store is out of range when \<open>m\<close> or \<open>n\<close> is not an index of the array.
\<close>

fun fill_row ::
  "(string \<Rightarrow> 'a option) \<Rightarrow> 'a list list \<Rightarrow> nat \<Rightarrow> nat \<Rightarrow> string list \<Rightarrow> error + 'a list list"
where
  "fill_row conv data m n [] = Inr data"
| "fill_row conv data m n (item # items) =
     (case conv item of
        None \<Rightarrow> Inl (ValueError ''could not convert string'')
      | Some v \<Rightarrow>
          if m < length data \<and> n < length (data ! m)
          then fill_row conv (data[m := (data ! m)[n := v]]) m (Suc n) items
          else Inl IndexError)"

fun read_pass ::
  "(string \<Rightarrow> 'a option) \<Rightarrow> string option \<Rightarrow> 'a list list \<Rightarrow> nat \<Rightarrow> string list
     \<Rightarrow> error + 'a list list"
where
  "read_pass conv sp data m [] = Inr data"
| "read_pass conv sp data m (line # rest) =
     (case line of
        [] \<Rightarrow> Inl IndexError
      | c # _ \<Rightarrow>
          if c = CHR ''#'' \<or> c = CHR ''%'' then read_pass conv sp data m rest
          else
            (case py_split sp (rstrip line) of
               Inl e \<Rightarrow> Inl e
             | Inr items \<Rightarrow>
                 (case fill_row conv data m 0 items of
                    Inl e \<Rightarrow> Inl e
                  | Inr data' \<Rightarrow> read_pass conv sp data' (Suc m) rest)))"

text \<open>The array that is returned: \<open>dtype="complex"\<close> or \<open>dtype="float"\<close>.\<close>

datatype ndarray = ComplexArray "complex list list" | FloatArray "real list list"

text \<open>
  \<open>read_lines\<close> is the body of \<open>file_data_read\<close> once the file is open; \<open>py_float\<close> and
  \<open>py_complex\<close> are Python's conversions \<open>float(item)\<close> and \<open>complex(item)\<close>, \<open>None\<close> when
  they raise.
\<close>

definition read_lines ::
  "(string \<Rightarrow> real option) \<Rightarrow> (string \<Rightarrow> complex option) \<Rightarrow> string list \<Rightarrow> string option
     \<Rightarrow> error + ndarray"
where
  "read_lines py_float py_complex lines sep0 =
     (case count_pass (scan0 sep0) lines of
        Inl e \<Rightarrow> Inl e
      | Inr st \<Rightarrow>
          (case numtype st of
             None \<Rightarrow> Inl (UnboundLocalError ''numtype'')
           | Some t \<Rightarrow>
               if t = ''complex''
               then map_sum id ComplexArray
                      (read_pass py_complex (sep st) (replicate (M st) (replicate (N st) 0)) 0 lines)
               else map_sum id FloatArray
                      (read_pass py_float (sep st) (replicate (M st) (replicate (N st) 0)) 0 lines)))"

definition file_data_read ::
  "(string \<Rightarrow> real option) \<Rightarrow> (string \<Rightarrow> complex option) \<Rightarrow> filesystem \<Rightarrow> string option
     \<Rightarrow> string option \<Rightarrow> error + ndarray"
where
  "file_data_read py_float py_complex fs filename sep0 =
     (case filename of
        None \<Rightarrow> Inl (ValueError ''filename is unspecified'')
      | Some name \<Rightarrow>
          (case fs name of
             None \<Rightarrow> Inl (FileNotFoundError name)
           | Some content \<Rightarrow> read_lines py_float py_complex (text_lines content) sep0))"

section \<open>Notions used to state the properties of \<open>file_data_read\<close>\<close>

text \<open>The data lines of a file are the lines that are not skipped as comments.\<close>

definition data_lines :: "string list \<Rightarrow> string list" where
  "data_lines lines = filter (\<lambda>l. \<not> is_comment l) lines"

definition first_data_line :: "string list \<Rightarrow> string option" where
  "first_data_line lines = find (\<lambda>l. \<not> is_comment l) lines"

text \<open>
  The separator in force once the first data line has been handled: the one that was
  supplied, or the one that \<open>find_delim\<close> detects on that line.
\<close>

definition first_sep :: "string option \<Rightarrow> string \<Rightarrow> error + string option" where
  "first_sep sep0 line = (if sep0 = None then find_delim line else Inr sep0)"

text \<open>The local variables of the first loop after the first data line.\<close>

definition after_first :: "string option \<Rightarrow> string \<Rightarrow> scan" where
  "after_first sp line =
     (let line_vec = split_fields sp line in
      \<lparr>M = 1, N = length line_vec, sep = sp,
       numtype = Some (if CHR ''j'' \<in> set (hd line_vec) \<or> CHR ''i'' \<in> set (hd line_vec)
                       then ''complex'' else ''np.real''),
       numformat = Some (if CHR ''e'' \<in> set (hd line_vec) \<or> CHR ''E'' \<in> set (hd line_vec)
                         then ''exp'' else ''decimal'')\<rparr>)"

text \<open>
  A line has a single column when none of the four delimiters and no white space splits
  it into more than one field.
\<close>

definition single_column :: "string \<Rightarrow> bool" where
  "single_column line \<longleftrightarrow>
     (\<forall>d\<in>set ['','', '';'', '':'', ''|'']. length (split_sep d [] line) \<le> 1) \<and>
     length (split_ws [] line) \<le> 1"

text \<open>
  The inference of the separator in words: the four delimiters are tried in a fixed
  order on the line, and the first that splits it into more than one field is taken;
  \<open>None\<close> stands for the fall-back, splitting at white space.
\<close>

definition delimiters :: "string list" where
  "delimiters = ['','', '';'', '':'', ''|'']"

definition infer_sep :: "string \<Rightarrow> string option" where
  "infer_sep line = find (\<lambda>d. 1 < length (split_sep d [] line)) delimiters"

text \<open>
  Reading with one fixed separator \<open>sp\<close>, stated on the data lines as a whole: every data
  line is split with \<open>sp\<close>; all of them must have as many fields as the first; the type
  of the array is decided by the first field of the first data line; row \<open>m\<close> of the
  array holds the converted fields of data line \<open>m\<close>, stripped on the right.
\<close>

definition convert_rows ::
  "(string \<Rightarrow> 'a option) \<Rightarrow> string option \<Rightarrow> string list \<Rightarrow> error + 'a list list" where
  "convert_rows conv sp rows =
     (case those (map (\<lambda>l. those (map conv (split_fields sp (rstrip l)))) rows) of
        None \<Rightarrow> Inl (ValueError ''could not convert string'')
      | Some d \<Rightarrow> Inr d)"

definition read_with ::
  "(string \<Rightarrow> real option) \<Rightarrow> (string \<Rightarrow> complex option) \<Rightarrow> string option \<Rightarrow> string list
     \<Rightarrow> error + ndarray" where
  "read_with py_float py_complex sp lines =
     (let rows = data_lines lines; vec0 = split_fields sp (hd rows) in
      if \<exists>l\<in>set rows. length (split_fields sp l) \<noteq> length vec0
      then Inl (ValueError ''Badly formatted data file: unequal number of columns'')
      else if CHR ''j'' \<in> set (hd vec0) \<or> CHR ''i'' \<in> set (hd vec0)
      then map_sum id ComplexArray (convert_rows py_complex sp rows)
      else map_sum id FloatArray (convert_rows py_float sp rows))"

section \<open>\<open>file_data_store\<close>\<close>

text \<open>
  \<open>data\<close> is an array of numbers with any number of axes: \<open>np_shape data\<close> is the tuple
  \<open>np.shape(data)\<close>, one size for each axis, and \<open>entry data m n\<close> is \<open>data[m, n]\<close>, which the
  function reads only after it has found two axes.  \<open>show_nat\<close> is the conversion \<open>%d\<close> of
  a count.
\<close>

record np_array =
  np_shape :: "nat list"
  entry :: "nat \<Rightarrow> nat \<Rightarrow> complex"

fun show_nat :: "nat \<Rightarrow> string" where
  "show_nat n =
     (if n < 10 then [char_of (48 + n)]
      else show_nat (n div 10) @ [char_of (48 + n mod 10)])"

declare show_nat.simps [simp del]

text \<open>
  The assignment \<open>M, N = np.shape(data)\<close> unpacks the tuple into two names.  It raises a
  \<open>ValueError\<close> when the tuple has fewer or more than two elements.
\<close>

definition unpack_pair :: "nat list \<Rightarrow> error + nat \<times> nat" where
  "unpack_pair t =
     (if length t < 2 then
        Inl (ValueError (''not enough values to unpack (expected 2, got '' @
                         show_nat (length t) @ '')''))
      else if length t > 2 then Inl (ValueError ''too many values to unpack (expected 2)'')
      else Inr (t ! 0, t ! 1))"

text \<open>The comment line that is written first.\<close>

definition header :: "nat \<Rightarrow> nat \<Rightarrow> string \<Rightarrow> string \<Rightarrow> string \<Rightarrow> string" where
  "header m n numtype' numformat' sep' =
     ''# Generated by QuTiP: '' @ show_nat m @ ''x'' @ show_nat n @ '' '' @ numtype' @ '' matrix '' @
     ''in '' @ numformat' @ '' format ['' @ [CHR 0x27] @ sep' @ [CHR 0x27] @
     '' separated values].'' @ [CHR 0x0A]"

text \<open>
  What is written for one entry.  \<open>fmt\<close> is the conversion of a float, \<open>%.10e\<close> or \<open>%.10f\<close>; it
  is a parameter.
\<close>

definition complex_item :: "(real \<Rightarrow> string) \<Rightarrow> complex \<Rightarrow> string" where
  "complex_item fmt z =
     (if Im z \<ge> 0 then fmt (Re z) @ ''+'' @ fmt (Im z) @ ''j''
      else fmt (Re z) @ fmt (Im z) @ ''j'')"

definition real_item :: "(real \<Rightarrow> string) \<Rightarrow> complex \<Rightarrow> string" where
  "real_item fmt z = fmt (Re z)"

text \<open>
  The text that the two nested loops write, \<open>for m in range(M)\<close> and \<open>for n in range(N)\<close>:
  the entries of a row with \<open>sep\<close> between them, and a line feed after each row.
\<close>

definition row_text :: "(complex \<Rightarrow> string) \<Rightarrow> np_array \<Rightarrow> nat \<Rightarrow> string \<Rightarrow> nat \<Rightarrow> string" where
  "row_text item d n_cols sep' m =
     concat (map (\<lambda>n. item (entry d m n) @ (if n \<noteq> n_cols - 1 then sep' else []))
                 [0..<n_cols]) @ [CHR 0x0A]"

definition rows_text :: "(complex \<Rightarrow> string) \<Rightarrow> np_array \<Rightarrow> nat \<Rightarrow> nat \<Rightarrow> string \<Rightarrow> string" where
  "rows_text item d n_rows n_cols sep' = concat (map (row_text item d n_cols sep') [0..<n_rows])"

section \<open>Opening a file\<close>

text \<open>
  \<open>open(name, "w")\<close> and \<open>open(name, "wb")\<close>.  Python refuses a name that holds a null
  character with a \<open>ValueError\<close>, before the operating system is asked.  The answer of the
  operating system is the parameter \<open>os_open\<close>: \<open>None\<close> when the file can be opened for
  writing, and the error number otherwise, for instance 2 (\<open>ENOENT\<close>) when a directory of
  the name does not exist or the name is empty, 21 (\<open>EISDIR\<close>) when the name is a
  directory, 13 (\<open>EACCES\<close>) when the permission is missing.  \<open>os_error\<close> is the exception
  that Python raises for an error number.  When the file is opened it is created, or
  emptied if it exists.
\<close>

definition os_error :: "nat \<Rightarrow> string \<Rightarrow> error" where
  "os_error errno name = (if errno = 2 then FileNotFoundError name else OSError errno name)"

definition open_w :: "(string \<Rightarrow> nat option) \<Rightarrow> string \<Rightarrow> filesystem \<Rightarrow> error + filesystem" where
  "open_w os_open name fs =
     (if CHR 0x00 \<in> set name then Inl (ValueError ''embedded null byte'')
      else
        (case os_open name of
           Some errno \<Rightarrow> Inl (os_error errno name)
         | None \<Rightarrow> Inr (fs(name \<mapsto> []))))"

text \<open>
  \<open>open(name, "rb")\<close>: the same refusal of a null character, then the content of the file
  if there is one.
\<close>

definition open_r :: "string \<Rightarrow> filesystem \<Rightarrow> error + string" where
  "open_r name fs =
     (if CHR 0x00 \<in> set name then Inl (ValueError ''embedded null byte'')
      else
        (case fs name of
           None \<Rightarrow> Inl (FileNotFoundError name)
         | Some content \<Rightarrow> Inr content))"

text \<open>
  \<open>f.write(s)\<close> appends to the open file.  The encoding of the file is taken to have every
  character of the text, as UTF-8 has, and the device to take what is written: a write
  to an open file does not raise.
\<close>

definition fwrite :: "string \<Rightarrow> string \<Rightarrow> filesystem \<Rightarrow> filesystem" where
  "fwrite name s fs = fs(name \<mapsto> (case fs name of None \<Rightarrow> [] | Some c \<Rightarrow> c) @ s)"

text \<open>
  The function, statement by statement: the test for \<open>None\<close>, the unpacking of the shape,
  the opening of the file, the header line, and the branches on \<open>numtype\<close> and
  \<open>numformat\<close>.  The result is the exception that is raised, if any, and the file system
  that the call leaves behind.
\<close>

definition file_data_store ::
  "(real \<Rightarrow> string) \<Rightarrow> (real \<Rightarrow> string) \<Rightarrow> (string \<Rightarrow> nat option) \<Rightarrow> filesystem
     \<Rightarrow> string option \<Rightarrow> np_array option \<Rightarrow> string \<Rightarrow> string \<Rightarrow> string
     \<Rightarrow> error option \<times> filesystem"
where
  "file_data_store fmt_e fmt_f os_open fs filename data numtype' numformat' sep' =
     (case (filename, data) of
        (Some name, Some d) \<Rightarrow>
          (case unpack_pair (np_shape d) of
             Inl e \<Rightarrow> (Some e, fs)
           | Inr (m_rows, n_cols) \<Rightarrow>
               (case open_w os_open name fs of
                  Inl e \<Rightarrow> (Some e, fs)
                | Inr fs1 \<Rightarrow>
                    (let fs2 = fwrite name (header m_rows n_cols numtype' numformat' sep') fs1
                     in if numtype' = ''complex'' then
                          (if numformat' = ''exp'' then
                             (None,
                              fwrite name (rows_text (complex_item fmt_e) d m_rows n_cols sep') fs2)
                           else if numformat' = ''decimal'' then
                             (None,
                              fwrite name (rows_text (complex_item fmt_f) d m_rows n_cols sep') fs2)
                           else
                             (Some (ValueError
                                      ''Illegal numformat value (should be 'exp' or 'decimal')''),
                              fs2))
                        else if numtype' = ''real'' then
                          (if numformat' = ''exp'' then
                             (None,
                              fwrite name (rows_text (real_item fmt_e) d m_rows n_cols sep') fs2)
                           else if numformat' = ''decimal'' then
                             (None,
                              fwrite name (rows_text (real_item fmt_f) d m_rows n_cols sep') fs2)
                           else
                             (Some (ValueError
                                      ''Illegal numformat value (should be 'exp' or 'decimal')''),
                              fs2))
                        else
                          (Some (ValueError
                                   ''Illegal numtype value (should be 'complex' or 'real')''),
                           fs2))))
      | _ \<Rightarrow> (Some (ValueError ''filename or data is unspecified''), fs))"

section \<open>\<open>qsave\<close> and \<open>qload\<close>\<close>

text \<open>
  \<open>pathlib.Path\<close> on POSIX.  A path is its root (empty, \<open>/\<close> or \<open>//\<close>) and its parts: the
  components between slashes, without the empty ones and the ones that are a single dot.
\<close>

record path =
  anchor :: string
  parts :: "string list"

definition Path :: "string \<Rightarrow> path" where
  "Path s =
     \<lparr>anchor = (if take 2 s = ''//'' \<and> take 3 s \<noteq> ''///'' then ''//''
                else if take 1 s = ''/'' then ''/'' else []),
      parts = filter (\<lambda>p. p \<noteq> [] \<and> p \<noteq> ''.'') (split_sep ''/'' [] s)\<rparr>"

fun join_parts :: "string list \<Rightarrow> string" where
  "join_parts [] = []"
| "join_parts [p] = p"
| "join_parts (p # q # ps) = p @ ''/'' @ join_parts (q # ps)"

text \<open>\<open>str(path)\<close>, which is what \<open>open\<close> receives.\<close>

definition fspath :: "path \<Rightarrow> string" where
  "fspath p =
     (if anchor p = [] \<and> parts p = [] then ''.'' else anchor p @ join_parts (parts p))"

text \<open>\<open>path.name\<close>: the last part, or the empty string when there is none.\<close>

definition path_name :: "path \<Rightarrow> string" where
  "path_name p = (if parts p = [] then [] else last (parts p))"

text \<open>\<open>s.rfind(c)\<close>: the last index of \<open>c\<close>, \<open>None\<close> for Python's \<open>-1\<close>.\<close>

definition rfind :: "char \<Rightarrow> string \<Rightarrow> nat option" where
  "rfind c s = find (\<lambda>i. s ! i = c) (rev [0..<length s])"

text \<open>\<open>path.suffix\<close>\<close>

definition suffix :: "path \<Rightarrow> string" where
  "suffix p =
     (let nm = path_name p in
      case rfind CHR ''.'' nm of
        None \<Rightarrow> []
      | Some i \<Rightarrow> if 0 < i \<and> i < length nm - 1 then drop i nm else [])"

text \<open>\<open>path.with_suffix(sfx)\<close>, with its three \<open>ValueError\<close>s.\<close>

definition with_suffix :: "path \<Rightarrow> string \<Rightarrow> error + path" where
  "with_suffix p sfx =
     (if CHR ''/'' \<in> set sfx then Inl (ValueError ''Invalid suffix'')
      else if (sfx \<noteq> [] \<and> hd sfx \<noteq> CHR ''.'') \<or> sfx = ''.'' then Inl (ValueError ''Invalid suffix'')
      else
        (let nm = path_name p in
         if nm = [] then Inl (ValueError ''has an empty name'')
         else
           (let old_suffix = suffix p;
                nm' = (if old_suffix = [] then nm @ sfx
                       else take (length nm - length old_suffix) nm @ sfx)
            in Inr (p\<lparr>parts := butlast (parts p) @ [nm']\<rparr>))))"

text \<open>
  The first two statements of both functions:
  \<open>path = Path(name); path = path.with_suffix(path.suffix + ".qu")\<close>.
\<close>

definition qu_path :: "string \<Rightarrow> error + path" where
  "qu_path name = with_suffix (Path name) (suffix (Path name) @ ''.qu'')"

text \<open>
  \<open>pickle.dump\<close> and \<open>pickle.load\<close> are parameters: \<open>dumps\<close> gives the bytes of a value, or
  \<open>None\<close> for a value that cannot be pickled, and \<open>loads\<close> gives the value of the bytes, or
  \<open>None\<close> when they are not a pickle.  \<open>open\<close> receives the path, and either raises or
  gives the file; an exception inside the \<open>with\<close> block leaves the file that was opened.
\<close>

definition qsave ::
  "('v \<Rightarrow> string option) \<Rightarrow> (string \<Rightarrow> nat option) \<Rightarrow> filesystem \<Rightarrow> 'v \<Rightarrow> string
     \<Rightarrow> error option \<times> filesystem" where
  "qsave dumps os_open fs data name =
     (case qu_path name of
        Inl e \<Rightarrow> (Some e, fs)
      | Inr p \<Rightarrow>
          (case open_w os_open (fspath p) fs of
             Inl e \<Rightarrow> (Some e, fs)
           | Inr fs1 \<Rightarrow>
               (case dumps data of
                  None \<Rightarrow> (Some PicklingError, fs1)
                | Some b \<Rightarrow> (None, fwrite (fspath p) b fs1))))"

definition qload :: "(string \<Rightarrow> 'v option) \<Rightarrow> filesystem \<Rightarrow> string \<Rightarrow> error + 'v" where
  "qload loads fs name =
     (case qu_path name of
        Inl e \<Rightarrow> Inl e
      | Inr p \<Rightarrow>
          (case open_r (fspath p) fs of
             Inl e \<Rightarrow> Inl e
           | Inr b \<Rightarrow>
               (case loads b of
                  None \<Rightarrow> Inl UnpicklingError
                | Some v \<Rightarrow> Inr v)))"

section \<open>The stochastic solvers\<close>

text \<open>
  Modelled from the spec: the stochastic solver (\<open>smesolve\<close>, \<open>ssesolve\<close>), of which only the
  tests are among the sources.  A problem specification holds the number of stochastic
  channels, the detection scheme, the time grid and the initial state.  What the
  specification treats as black boxes is a field too: the generator that a seed
  initialises, the draw of one Wiener increment for a step of a given length, the
  trajectory integrator (time, step, increments, state), the expectation value of the
  measured operator of a noise stream, the expectation values of the observables, and
  the derivation of sub-seeds from one seed.  The two variants differ in the type of
  the state (density matrix or state vector) and in these black boxes only.
\<close>

record ('s, 'g) problem =
  n_sc_ops :: nat
  heterodyne :: bool
  tlist :: "real list"
  state0 :: 's
  rng :: "nat \<Rightarrow> 'g"
  increment :: "real \<Rightarrow> 'g \<Rightarrow> real \<times> 'g"
  integrator :: "real \<Rightarrow> real \<Rightarrow> real list \<Rightarrow> 's \<Rightarrow> 's"
  m_expect :: "nat \<Rightarrow> real \<Rightarrow> 's \<Rightarrow> real"
  e_expect :: "real \<Rightarrow> 's \<Rightarrow> real list"
  spawn :: "nat \<Rightarrow> nat \<Rightarrow> nat list"

text \<open>
  Modelled from the spec: the options of the solve entry point that the result
  aggregator reads, and their defaults (a solve call that sets none of them stores no
  measurement).
\<close>

record options =
  store_measurement :: bool
  store_final_state :: bool
  keep_runs_results :: bool

text \<open>
  Modelled from the spec: the options of a solve call that sets none of them.
\<close>

definition default_options :: options where
  "default_options =
     \<lparr>store_measurement = False, store_final_state = False, keep_runs_results = False\<rparr>"

text \<open>
  Modelled from the spec: homodyne detection has one noise stream for each stochastic
  channel, heterodyne detection two, one for each quadrature.
\<close>

definition n_streams :: "('s, 'g) problem \<Rightarrow> nat" where
  "n_streams p = n_sc_ops p * (if heterodyne p then 2 else 1)"

text \<open>
  Modelled from the spec: the increments of one step, drawn one after the other from the
  generator of the trajectory, which is threaded through the draws.
\<close>

fun draw :: "('g \<Rightarrow> real \<times> 'g) \<Rightarrow> nat \<Rightarrow> 'g \<Rightarrow> real list \<times> 'g" where
  "draw f 0 g = ([], g)"
| "draw f (Suc n) g =
     (let (x, g1) = f g; (xs, g2) = draw f n g1 in (x # xs, g2))"

text \<open>
  Modelled from the spec: the driver of one trajectory.  For each interval of the time
  grid it draws an increment for each noise stream, derives the measured signal of each
  stream from its increment and the expectation value of its operator, and lets the
  integrator advance the state.  It yields, for each interval, the increments, the
  measured signals and the expectation values of the observables at the end of the
  interval, and the final state.
\<close>

fun steps ::
  "('s, 'g) problem \<Rightarrow> 'g \<Rightarrow> 's \<Rightarrow> real list \<Rightarrow> (real list \<times> real list \<times> real list) list \<times> 's"
where
  "steps p g s (t0 # t1 # ts) =
     (let dt = t1 - t0;
          (dw, g1) = draw (increment p dt) (n_streams p) g;
          m = map (\<lambda>i. m_expect p i t0 s + dw ! i / dt) [0..<n_streams p];
          s1 = integrator p t0 dt dw s;
          (rest, sN) = steps p g1 s1 (t1 # ts)
      in ((dw, m, e_expect p t1 s1) # rest, sN))"
| "steps p g s ts = ([], s)"

text \<open>
  Modelled from the spec: what one trajectory contributes to the result: its final
  state, the expectation values of the observables at each time point, and, for each
  interval, the increments and the measured signals of the noise streams.
\<close>

record 's trajectory =
  traj_final :: 's
  traj_expect :: "real list list"
  traj_dW :: "real list list"
  traj_m :: "real list list"

text \<open>
  Modelled from the spec: a trajectory is computed from the problem and its own seed,
  with a generator of its own.
\<close>

definition run_trajectory :: "('s, 'g) problem \<Rightarrow> nat \<Rightarrow> 's trajectory" where
  "run_trajectory p seed =
     (let (out, sN) = steps p (rng p seed) (state0 p) (tlist p)
      in \<lparr>traj_final = sN,
          traj_expect =
            (case tlist p of
               [] \<Rightarrow> []
             | t0 # _ \<Rightarrow> e_expect p t0 (state0 p) # map (\<lambda>(dw, m, e). e) out),
          traj_dW = map (\<lambda>(dw, m, e). dw) out,
          traj_m = map (\<lambda>(dw, m, e). m) out\<rparr>)"

text \<open>
  Modelled from the spec: the arrays of a result.  An array is a number or a sequence of
  arrays, and \<open>has_shape\<close> says that it has the given sizes along its axes.
\<close>

datatype ndarr = Scalar real | Array "ndarr list"

fun has_shape :: "nat list \<Rightarrow> ndarr \<Rightarrow> bool" where
  "has_shape [] (Scalar x) = True"
| "has_shape (d # ds) (Array xs) = (length xs = d \<and> list_all (has_shape ds) xs)"
| "has_shape ds a = False"

text \<open>
  Modelled from the spec: the record of a trajectory along the channel axis.  \<open>series j\<close>
  is the sequence in time of noise stream \<open>j\<close>; with heterodyne detection the two
  quadratures of a channel form an extra axis directly after the channel axis.
\<close>

definition per_channel :: "('s, 'g) problem \<Rightarrow> (nat \<Rightarrow> real list) \<Rightarrow> ndarr" where
  "per_channel p series =
     (if heterodyne p
      then Array (map (\<lambda>c. Array (map (\<lambda>q. Array (map Scalar (series (2 * c + q)))) [0..<2]))
                      [0..<n_sc_ops p])
      else Array (map (\<lambda>c. Array (map Scalar (series c))) [0..<n_sc_ops p]))"

text \<open>
  Modelled from the spec: the sequence in time of stream \<open>j\<close>, taken from the values that
  the intervals recorded for all streams.
\<close>

definition series_of :: "real list list \<Rightarrow> nat \<Rightarrow> real list" where
  "series_of rows j = map (\<lambda>r. r ! j) rows"

text \<open>
  Modelled from the spec: the Wiener trace of a stream accumulates its increments,
  starting from zero at the first time point.
\<close>

fun cumsum :: "real \<Rightarrow> real list \<Rightarrow> real list" where
  "cumsum a [] = [a]"
| "cumsum a (x # xs) = a # cumsum (a + x) xs"

text \<open>
  Modelled from the spec: \<open>dW\<close> of a trajectory holds the increments of each stream, one
  for each interval of the time grid.
\<close>

definition dW_array :: "('s, 'g) problem \<Rightarrow> 's trajectory \<Rightarrow> ndarr" where
  "dW_array p tr = per_channel p (series_of (traj_dW tr))"

text \<open>
  Modelled from the spec: the Wiener trace of a trajectory holds the accumulated
  increments of each stream, one value for each time point.
\<close>

definition wiener_array :: "('s, 'g) problem \<Rightarrow> 's trajectory \<Rightarrow> ndarr" where
  "wiener_array p tr = per_channel p (\<lambda>j. cumsum 0 (series_of (traj_dW tr) j))"

text \<open>
  Modelled from the spec: the measurement record of a trajectory holds the measured
  signal of each stream, one for each interval of the time grid.
\<close>

definition measurement_array :: "('s, 'g) problem \<Rightarrow> 's trajectory \<Rightarrow> ndarr" where
  "measurement_array p tr = per_channel p (series_of (traj_m tr))"

text \<open>
  Modelled from the spec: the ensemble average of the expectation values, element by
  element over the trajectories.
\<close>

definition average_over :: "'s trajectory list \<Rightarrow> real list list" where
  "average_over trs =
     (case trs of
        [] \<Rightarrow> []
      | tr # _ \<Rightarrow>
          map (\<lambda>i. map (\<lambda>j. sum_list (map (\<lambda>t. traj_expect t ! i ! j) trs) / real (length trs))
                        [0..<length (traj_expect tr ! i)])
              [0..<length (traj_expect tr)])"

text \<open>
  Modelled from the spec: the result.  The averaged expectation values and the seeds
  are always there; the other fields are there when their option asks for them.
\<close>

record 's result =
  seeds :: "nat list"
  average_expect :: "real list list"
  runs_expect :: "real list list list option"
  final_state :: "'s list option"
  measurement :: "ndarr list option"
  wiener_process :: "ndarr list option"
  dW :: "ndarr list option"

text \<open>
  Modelled from the spec: the seed argument of the solve entry point (absent, an
  integer, a list of integers, or a former result) and the seeds that the ensemble
  runner makes of it.  \<open>entropy\<close> is the value that the entropy source of the process
  gives at the call.
\<close>

datatype 's seed_arg = Absent | SeedInt nat | SeedList "nat list" | FromResult "'s result"

text \<open>
  Modelled from the spec: without a seed the sub-seeds are derived from the entropy of
  the process, with one seed they are derived from it, a list of seeds is used as it
  is, and a former result gives the seeds that it captured.
\<close>

definition realise_seeds ::
  "('s, 'g) problem \<Rightarrow> nat \<Rightarrow> nat \<Rightarrow> 's seed_arg \<Rightarrow> nat list" where
  "realise_seeds p entropy ntraj arg =
     (case arg of
        Absent \<Rightarrow> spawn p entropy ntraj
      | SeedInt s \<Rightarrow> spawn p s ntraj
      | SeedList l \<Rightarrow> l
      | FromResult r \<Rightarrow> seeds r)"

text \<open>
  Modelled from the spec: the solve entry point, \<open>smesolve\<close> or \<open>ssesolve\<close> according to the
  problem.  The ensemble runner runs one trajectory for each seed, and the result
  aggregator assembles the result.
\<close>

definition solve ::
  "('s, 'g) problem \<Rightarrow> options \<Rightarrow> nat \<Rightarrow> nat \<Rightarrow> 's seed_arg \<Rightarrow> 's result" where
  "solve p opts entropy ntraj arg =
     (let sds = realise_seeds p entropy ntraj arg;
          trs = map (run_trajectory p) sds
      in \<lparr>seeds = sds,
          average_expect = average_over trs,
          runs_expect = (if keep_runs_results opts then Some (map traj_expect trs) else None),
          final_state = (if store_final_state opts then Some (map traj_final trs) else None),
          measurement =
            (if store_measurement opts then Some (map (measurement_array p) trs) else None),
          wiener_process =
            (if store_measurement opts then Some (map (wiener_array p) trs) else None),
          dW = (if store_measurement opts then Some (map (dW_array p) trs) else None)\<rparr>)"

text \<open>
  Modelled from the spec: the shape contract.  For \<open>k\<close> stochastic channels, a record
  with \<open>n\<close> entries in time has shape \<open>(k, n)\<close> with homodyne detection and \<open>(k, 2, n)\<close> with
  heterodyne detection.
\<close>

definition record_shape :: "('s, 'g) problem \<Rightarrow> nat \<Rightarrow> nat list" where
  "record_shape p n = (if heterodyne p then [n_sc_ops p, 2, n] else [n_sc_ops p, n])"

section \<open>Properties of \<open>file_data_read\<close>\<close>

subsection \<open>Lines, fields and separators\<close>


lemma cut_lines_nonempty: "[] \<notin> set (cut_lines cur s)"
  by (induction s arbitrary: cur) auto

lemma text_lines_nonempty: "[] \<notin> set (text_lines content)"
  by (simp add: text_lines_def cut_lines_nonempty)

lemma length_split_sep_single: "length (split_sep [c] cur s) = Suc (count_list s c)"
  by (induction s arbitrary: cur) auto

lemma rstrip_decomp: "\<exists>t. s = rstrip s @ t \<and> (\<forall>x\<in>set t. is_space x)"
proof -
  have "rev s = takeWhile is_space (rev s) @ dropWhile is_space (rev s)" by simp
  then have "s = rev (dropWhile is_space (rev s)) @ rev (takeWhile is_space (rev s))"
    by (metis rev_append rev_rev_ident)
  moreover have "\<forall>x\<in>set (rev (takeWhile is_space (rev s))). is_space x"
    by (auto dest: set_takeWhileD)
  ultimately show ?thesis unfolding rstrip_def by blast
qed

lemma count_list_rstrip: "\<not> is_space c \<Longrightarrow> count_list (rstrip s) c = count_list s c"
proof -
  assume c: "\<not> is_space c"
  obtain t where t: "s = rstrip s @ t" "\<forall>x\<in>set t. is_space x" using rstrip_decomp by blast
  have "count_list t c = 0" using t(2) c by (auto simp: count_list_0_iff)
  then show ?thesis using t(1) by (metis count_list_append add.right_neutral)
qed

lemma split_ws_spaces: "\<forall>x\<in>set t. is_space x \<Longrightarrow> split_ws cur t = (if cur = [] then [] else [rev cur])"
  by (induction t arbitrary: cur) auto

lemma split_ws_append_spaces: "\<forall>x\<in>set t. is_space x \<Longrightarrow> split_ws cur (s @ t) = split_ws cur s"
  by (induction s arbitrary: cur) (auto simp: split_ws_spaces)

lemma split_ws_rstrip: "split_ws [] (rstrip s) = split_ws [] s"
  by (metis rstrip_decomp split_ws_append_spaces)

lemma length_split_sep_rstrip:
  "\<not> is_space c \<Longrightarrow> length (split_sep [c] [] (rstrip s)) = length (split_sep [c] [] s)"
  by (simp add: length_split_sep_single count_list_rstrip)

lemma delims_not_space:
  "\<not> is_space CHR '',''" "\<not> is_space CHR '';''" "\<not> is_space CHR '':''" "\<not> is_space CHR ''|''"
  by (simp_all add: is_space_def)

lemma find_delim_unstripped:
  "find_delim line =
     (if length (split_sep '','' [] line) > 1 then Inr (Some '','')
      else if length (split_sep '';'' [] line) > 1 then Inr (Some '';'')
      else if length (split_sep '':'' [] line) > 1 then Inr (Some '':'')
      else if length (split_sep ''|'' [] line) > 1 then Inr (Some ''|'')
      else if length (split_ws [] line) > 1 then Inr None
      else Inl (ValueError ''Unrecognized column deliminator''))"
  unfolding find_delim_def
  by (simp only: length_split_sep_rstrip delims_not_space split_ws_rstrip not_False_eq_True)

lemma find_delim_nonempty_sep: "find_delim line \<noteq> Inr (Some [])"
  by (simp add: find_delim_def)

lemma find_delim_fields:
  "find_delim line = Inr sp \<Longrightarrow> 1 < length (split_fields sp line)"
  by (auto simp: find_delim_unstripped split_fields_def split: if_splits)

lemma split_sep_not_Nil: "split_sep d cur s \<noteq> []"
  by (induction d cur s rule: split_sep.induct) auto

lemma find_first_split:
  "find P xs = Some x \<Longrightarrow> \<exists>ys zs. xs = ys @ x # zs \<and> P x \<and> (\<forall>y\<in>set ys. \<not> P y)"
proof (induction xs)
  case Nil
  then show ?case by simp
next
  case (Cons a xs)
  show ?case
  proof (cases "P a")
    case True
    with Cons.prems have "a = x" by simp
    with True show ?thesis by (intro exI[of _ "[]"] exI[of _ xs]) simp
  next
    case False
    with Cons obtain ys zs where "xs = ys @ x # zs" "P x" "\<forall>y\<in>set ys. \<not> P y" by auto
    with False show ?thesis by (intro exI[of _ "a # ys"] exI[of _ zs]) simp
  qed
qed

lemma count_pass_comments:
  "\<forall>l\<in>set ps. is_comment l \<Longrightarrow> count_pass st (ps @ rest) = count_pass st rest"
  by (induction ps) (auto simp: is_comment_def split: list.splits)

lemma count_pass_data_line:
  assumes "l \<noteq> []" "\<not> is_comment l"
  shows "count_pass st (l # rest) =
     (case (if N st = 0 \<and> sep st = None then find_delim l else Inr (sep st)) of
        Inl e \<Rightarrow> Inl e
      | Inr sp \<Rightarrow>
          (case py_split sp l of
             Inl e \<Rightarrow> Inl e
           | Inr line_vec \<Rightarrow>
               let n = length line_vec in
               if N st = 0 \<and> n > 0 then
                 count_pass
                   (st\<lparr>sep := sp, N := n,
                       numtype :=
                         Some (if CHR ''j'' \<in> set (hd line_vec) \<or> CHR ''i'' \<in> set (hd line_vec)
                               then ''complex'' else ''np.real''),
                       numformat :=
                         Some (if CHR ''e'' \<in> set (hd line_vec) \<or> CHR ''E'' \<in> set (hd line_vec)
                               then ''exp'' else ''decimal''),
                       M := M st + 1\<rparr>)
                   rest
               else if N st \<noteq> n then
                 Inl (ValueError ''Badly formatted data file: unequal number of columns'')
               else count_pass (st\<lparr>sep := sp, M := M st + 1\<rparr>) rest))"
  using assms by (cases l; clarsimp simp: is_comment_def)

lemma count_pass_counted:
  assumes "0 < N st" "sep st \<noteq> Some []" "[] \<notin> set rest"
  shows "count_pass st rest =
     (if \<forall>l\<in>set rest. \<not> is_comment l \<longrightarrow> length (split_fields (sep st) l) = N st
      then Inr (st\<lparr>M := M st + length (data_lines rest)\<rparr>)
      else Inl (ValueError ''Badly formatted data file: unequal number of columns''))"
  using assms
proof (induction rest arbitrary: st)
  case Nil
  then show ?case by (simp add: data_lines_def)
next
  case (Cons l rest)
  from Cons.prems have l: "l \<noteq> []" and r: "[] \<notin> set rest" by auto
  show ?case
  proof (cases "is_comment l")
    case True
    have "count_pass st (l # rest) = count_pass st rest"
      using True count_pass_comments[of "[l]" st rest] by simp
    also note Cons.IH[OF Cons.prems(1,2) r]
    also have "(if \<forall>l\<in>set rest. \<not> is_comment l \<longrightarrow> length (split_fields (sep st) l) = N st
      then Inr (st\<lparr>M := M st + length (data_lines rest)\<rparr>)
      else Inl (ValueError ''Badly formatted data file: unequal number of columns'')) =
      (if \<forall>l\<in>set (l # rest). \<not> is_comment l \<longrightarrow> length (split_fields (sep st) l) = N st
      then Inr (st\<lparr>M := M st + length (data_lines (l # rest))\<rparr>)
      else Inl (ValueError ''Badly formatted data file: unequal number of columns''))"
      using True by (auto simp: data_lines_def)
    finally show ?thesis .
  next
    case False
    let ?st' = "st\<lparr>M := M st + 1\<rparr>"
    have st': "0 < N ?st'" "sep ?st' \<noteq> Some []" using Cons.prems by simp_all
    have "count_pass st (l # rest) =
       (if N st \<noteq> length (split_fields (sep st) l)
        then Inl (ValueError ''Badly formatted data file: unequal number of columns'')
        else count_pass ?st' rest)"
      using Cons.prems(1,2) by (subst count_pass_data_line[OF l False]) (simp add: py_split_def)
    also have "\<dots> = (if \<forall>l\<in>set (l # rest). \<not> is_comment l \<longrightarrow> length (split_fields (sep st) l) = N st
      then Inr (st\<lparr>M := M st + length (data_lines (l # rest))\<rparr>)
      else Inl (ValueError ''Badly formatted data file: unequal number of columns''))"
      using False Cons.IH[OF st' r] by (auto simp: data_lines_def)
    finally show ?thesis .
  qed
qed


lemma first_sep_fields:
  assumes "first_sep sep0 l = Inr sp" "sp \<noteq> Some []"
  shows "0 < length (split_fields sp l)"
proof (cases sp)
  case None
  with assms(1) have "find_delim l = Inr None"
    by (auto simp: first_sep_def split: if_splits)
  then show ?thesis using None find_delim_fields[of l None] by auto
next
  case (Some d)
  then show ?thesis by (simp add: split_fields_def split_sep_not_Nil)
qed

lemma count_pass_first:
  assumes "\<forall>l\<in>set ps. is_comment l" "l0 \<noteq> []" "\<not> is_comment l0"
  shows "count_pass (scan0 sep0) (ps @ l0 # rest) =
     (case first_sep sep0 l0 of
        Inl e \<Rightarrow> Inl e
      | Inr sp \<Rightarrow> if sp = Some [] then Inl (ValueError ''empty separator'')
                  else count_pass (after_first sp l0) rest)"
proof -
  let ?st = "scan0 sep0"
  have choice: "(if N ?st = 0 \<and> sep ?st = None then find_delim l0 else Inr (sep ?st)) =
                first_sep sep0 l0"
    by (simp add: scan0_def first_sep_def)
  have step: "count_pass ?st (l0 # rest) =
     (case first_sep sep0 l0 of
        Inl e \<Rightarrow> Inl e
      | Inr sp \<Rightarrow> if sp = Some [] then Inl (ValueError ''empty separator'')
                  else count_pass (after_first sp l0) rest)"
  proof (cases "first_sep sep0 l0")
    case (Inl e)
    show ?thesis
      by (subst count_pass_data_line[OF assms(2,3)]) (simp only: choice Inl sum.case)
  next
    case (Inr sp)
    show ?thesis
    proof (cases "sp = Some []")
      case True
      then have "py_split sp l0 = Inl (ValueError ''empty separator'')"
        by (simp add: py_split_def)
      then have "count_pass ?st (l0 # rest) = Inl (ValueError ''empty separator'')"
        by (subst count_pass_data_line[OF assms(2,3)]) (simp only: choice Inr sum.case)
      then show ?thesis using True Inr by simp
    next
      case False
      then have split: "py_split sp l0 = Inr (split_fields sp l0)"
        by (simp add: py_split_def)
      have pos: "0 < length (split_fields sp l0)"
        using Inr False by (rule first_sep_fields)
      have N0: "N ?st = 0" and M0: "M ?st = 0" by (simp_all add: scan0_def)
      have st: "?st\<lparr>sep := sp, N := length (split_fields sp l0),
                  numtype := Some (if CHR ''j'' \<in> set (hd (split_fields sp l0)) \<or>
                                      CHR ''i'' \<in> set (hd (split_fields sp l0))
                                   then ''complex'' else ''np.real''),
                  numformat := Some (if CHR ''e'' \<in> set (hd (split_fields sp l0)) \<or>
                                        CHR ''E'' \<in> set (hd (split_fields sp l0))
                                     then ''exp'' else ''decimal''),
                  M := M ?st + 1\<rparr> = after_first sp l0"
        by (simp add: scan0_def after_first_def Let_def)
      have choice': "(if sep ?st = None then find_delim l0 else Inr (sep ?st)) = Inr sp"
        using choice Inr by (simp add: N0)
      have "count_pass ?st (l0 # rest) = count_pass (after_first sp l0) rest"
        by (subst count_pass_data_line[OF assms(2,3)])
           (simp only: choice' split sum.case Let_def N0 pos simp_thms if_True st)
      then show ?thesis using False Inr by simp
    qed
  qed
  show ?thesis
    unfolding count_pass_comments[OF assms(1)] by (rule step)
qed

lemma first_data_line_split:
  assumes "first_data_line lines = Some l0"
  obtains ps rest where "lines = ps @ l0 # rest" "\<not> is_comment l0" "\<forall>l\<in>set ps. is_comment l"
  using find_first_split[OF assms[unfolded first_data_line_def]] by blast

subsection \<open>Unequal numbers of columns\<close>

text \<open>
  Claim C5.  Take any file and let \<open>sp\<close> be the separator in force after its first data
  line \<open>l0\<close> (supplied by the caller, or detected on \<open>l0\<close>).  If some data line \<open>l\<close> of the
  file splits with \<open>sp\<close> into a number of fields that differs from the number of fields
  of \<open>l0\<close>, then \<open>file_data_read\<close> raises the \<open>ValueError\<close> for an unequal number of
  columns; no array is returned.
\<close>

theorem unequal_columns_rejected:
  assumes stored: "fs name = Some content"
      and first: "first_data_line (text_lines content) = Some l0"
      and sep: "first_sep sep0 l0 = Inr sp"
      and line: "l \<in> set (text_lines content)" "\<not> is_comment l"
      and cols: "py_split sp l0 = Inr v0" "py_split sp l = Inr v" "length v \<noteq> length v0"
  shows "file_data_read py_float py_complex fs (Some name) sep0 =
           Inl (ValueError ''Badly formatted data file: unequal number of columns'')"
proof -
  from first obtain ps rest where
    lines: "text_lines content = ps @ l0 # rest" and l0: "\<not> is_comment l0"
    and ps: "\<forall>l\<in>set ps. is_comment l"
    by (rule first_data_line_split)
  have ne: "[] \<notin> set (text_lines content)" by (rule text_lines_nonempty)
  then have l0': "l0 \<noteq> []" and rest: "[] \<notin> set rest" using lines by auto
  from cols have sp: "sp \<noteq> Some []" and v0: "v0 = split_fields sp l0" and v: "v = split_fields sp l"
    by (auto simp: py_split_def split: if_splits)
  have pos: "0 < N (after_first sp l0)" "sep (after_first sp l0) \<noteq> Some []"
    using first_sep_fields[OF sep sp] sp by (simp_all add: after_first_def Let_def)
  from line cols(3) v0 v lines ps have "l \<in> set rest" by auto
  with line(2) cols(3) v0 v
  have bad: "\<not> (\<forall>l\<in>set rest. \<not> is_comment l \<longrightarrow>
              length (split_fields (sep (after_first sp l0)) l) = N (after_first sp l0))"
    by (auto simp: after_first_def Let_def)
  have "count_pass (scan0 sep0) (text_lines content) = count_pass (after_first sp l0) rest"
    unfolding lines count_pass_first[OF ps l0' l0] using sep sp by simp
  also have "\<dots> = Inl (ValueError ''Badly formatted data file: unequal number of columns'')"
    unfolding count_pass_counted[OF pos rest] using bad by simp
  finally show ?thesis using stored by (simp add: file_data_read_def read_lines_def)
qed

theorem unequal_columns_rejected_witness:
  "file_data_read (\<lambda>s. None) (\<lambda>s. None)
     [''m.dat'' \<mapsto> ''# matrix\<newline>1,2\<newline>3,4,5\<newline>''] (Some ''m.dat'') None =
   Inl (ValueError ''Badly formatted data file: unequal number of columns'')"
proof -
  let ?content = "''# matrix\<newline>1,2\<newline>3,4,5\<newline>''"
  let ?fs = "[''m.dat'' \<mapsto> ?content]"
  have lines: "text_lines ?content = [''# matrix\<newline>'', ''1,2\<newline>'', ''3,4,5\<newline>'']"
    by code_simp
  have stored: "?fs ''m.dat'' = Some ?content" by simp
  have first: "first_data_line (text_lines ?content) = Some ''1,2\<newline>''"
    unfolding lines by code_simp
  have sep: "first_sep None ''1,2\<newline>'' = Inr (Some '','')"
    by code_simp
  have line: "''3,4,5\<newline>'' \<in> set (text_lines ?content)"
    unfolding lines by simp
  have data: "\<not> is_comment ''3,4,5\<newline>''"
    by code_simp
  have cols: "py_split (Some '','') ''1,2\<newline>'' = Inr [''1'', ''2\<newline>'']"
    "py_split (Some '','') ''3,4,5\<newline>'' = Inr [''3'', ''4'', ''5\<newline>'']"
    by code_simp+
  have diff: "length [''3'', ''4'', ''5\<newline>''] \<noteq> length [''1'', ''2\<newline>'']"
    by simp
  show ?thesis
    by (rule unequal_columns_rejected
      [where fs = ?fs and name = "''m.dat''" and content = ?content,
       OF stored first sep line data cols diff])
qed

subsection \<open>Unrecognised delimiter\<close>

text \<open>
  Claim C6.  When \<open>file_data_read\<close> is called with \<open>sep=None\<close> and the first data line of the
  file has a single column (none of \<open>,\<close> \<open>;\<close> \<open>:\<close> \<open>|\<close> and no white space splits it into
  more than one field), the \<open>ValueError\<close> for an unrecognised column delimiter is raised.
  A file whose data lines all have a single column is the special case in which the
  first of them has one.
\<close>

theorem single_column_rejected:
  assumes stored: "fs name = Some content"
      and first: "first_data_line (text_lines content) = Some l0"
      and single: "single_column l0"
  shows "file_data_read py_float py_complex fs (Some name) None =
           Inl (ValueError ''Unrecognized column deliminator'')"
proof -
  from first obtain ps rest where
    lines: "text_lines content = ps @ l0 # rest" and l0: "\<not> is_comment l0"
    and ps: "\<forall>l\<in>set ps. is_comment l"
    by (rule first_data_line_split)
  have "[] \<notin> set (text_lines content)" by (rule text_lines_nonempty)
  then have l0': "l0 \<noteq> []" using lines by auto
  from single have "find_delim l0 = Inl (ValueError ''Unrecognized column deliminator'')"
    by (simp add: find_delim_unstripped single_column_def)
  then have "count_pass (scan0 None) (text_lines content) =
               Inl (ValueError ''Unrecognized column deliminator'')"
    unfolding lines count_pass_first[OF ps l0' l0] by (simp add: first_sep_def)
  then show ?thesis using stored by (simp add: file_data_read_def read_lines_def)
qed

theorem single_column_rejected_witness:
  "file_data_read (\<lambda>s. None) (\<lambda>s. None)
     [''v.dat'' \<mapsto> ''# vector\<newline>1.5\<newline>2.5\<newline>''] (Some ''v.dat'') None =
   Inl (ValueError ''Unrecognized column deliminator'')"
proof -
  let ?content = "''# vector\<newline>1.5\<newline>2.5\<newline>''"
  let ?fs = "[''v.dat'' \<mapsto> ?content]"
  have lines: "text_lines ?content = [''# vector\<newline>'', ''1.5\<newline>'', ''2.5\<newline>'']"
    by code_simp
  have stored: "?fs ''v.dat'' = Some ?content" by simp
  have first: "first_data_line (text_lines ?content) = Some ''1.5\<newline>''"
    unfolding lines by code_simp
  have single: "single_column ''1.5\<newline>''"
    by code_simp
  show ?thesis
    by (rule single_column_rejected
      [where fs = ?fs and name = "''v.dat''" and content = ?content,
       OF stored first single])
qed

subsection \<open>The separator is inferred once and used for every line\<close>

lemma find_delim_infer:
  "find_delim line =
     (if infer_sep line = None \<and> length (split_ws [] line) \<le> 1
      then Inl (ValueError ''Unrecognized column deliminator'')
      else Inr (infer_sep line))"
  by (simp add: find_delim_unstripped infer_sep_def delimiters_def)

lemma infer_sep_cases:
  "infer_sep line = None \<or> (\<exists>c. infer_sep line = Some [c] \<and> \<not> is_space c)"
  by (auto simp: infer_sep_def delimiters_def delims_not_space)

lemma length_fields_rstrip:
  assumes "sp = None \<or> (\<exists>c. sp = Some [c] \<and> \<not> is_space c)"
  shows "length (split_fields sp (rstrip l)) = length (split_fields sp l)"
  using assms by (auto simp: split_fields_def split_ws_rstrip length_split_sep_rstrip)

lemma fill_row_those:
  assumes "m < length data" "n + length items = length (data ! m)"
  shows "fill_row conv data m n items =
     (case those (map conv items) of
        None \<Rightarrow> Inl (ValueError ''could not convert string'')
      | Some vs \<Rightarrow> Inr (data[m := take n (data ! m) @ vs]))"
  using assms
proof (induction items arbitrary: data n)
  case Nil
  then show ?case by simp
next
  case (Cons item items)
  show ?case
  proof (cases "conv item")
    case None
    then show ?thesis by simp
  next
    case (Some v)
    let ?data = "data[m := (data ! m)[n := v]]"
    have n: "n < length (data ! m)" using Cons.prems by simp
    have IH: "fill_row conv ?data m (Suc n) items =
       (case those (map conv items) of
          None \<Rightarrow> Inl (ValueError ''could not convert string'')
        | Some vs \<Rightarrow> Inr (?data[m := take (Suc n) (?data ! m) @ vs]))"
      using Cons.prems by (intro Cons.IH) simp_all
    have row: "?data ! m = (data ! m)[n := v]" using Cons.prems(1) by simp
    have tk: "take (Suc n) ((data ! m)[n := v]) = take n (data ! m) @ [v]"
      using n by (simp add: take_Suc_conv_app_nth)
    have "fill_row conv data m n (item # items) = fill_row conv ?data m (Suc n) items"
      using Some Cons.prems(1) n by simp
    also note IH
    finally show ?thesis
      using Some by (simp add: row tk split: option.splits)
  qed
qed

lemma read_pass_comment: "is_comment l \<Longrightarrow> read_pass conv sp data m (l # rest) = read_pass conv sp data m rest"
  by (cases l) (auto simp: is_comment_def)

lemma read_pass_data_line:
  assumes "l \<noteq> []" "\<not> is_comment l" "sp \<noteq> Some []"
  shows "read_pass conv sp data m (l # rest) =
     (case fill_row conv data m 0 (split_fields sp (rstrip l)) of
        Inl e \<Rightarrow> Inl e
      | Inr data' \<Rightarrow> read_pass conv sp data' (Suc m) rest)"
  using assms by (cases l) (auto simp: is_comment_def py_split_def)

lemma read_pass_convert:
  assumes "[] \<notin> set lines" "sp \<noteq> Some []"
      and "\<forall>l\<in>set lines. \<not> is_comment l \<longrightarrow> length (split_fields sp (rstrip l)) = n"
  shows "read_pass conv sp (done @ replicate (length (data_lines lines)) (replicate n 0)) (length done) lines =
     (case convert_rows conv sp (data_lines lines) of
        Inl e \<Rightarrow> Inl e
      | Inr d \<Rightarrow> Inr (done @ d))"
  using assms
proof (induction lines arbitrary: "done")
  case Nil
  then show ?case by (simp add: data_lines_def convert_rows_def)
next
  case (Cons l lines)
  from Cons.prems have l: "l \<noteq> []" and ls: "[] \<notin> set lines"
    and cols: "\<forall>l\<in>set lines. \<not> is_comment l \<longrightarrow> length (split_fields sp (rstrip l)) = n"
    by auto
  note IH = Cons.IH[OF ls Cons.prems(2) cols]
  show ?case
  proof (cases "is_comment l")
    case True
    have dl: "data_lines (l # lines) = data_lines lines"
      using True by (simp add: data_lines_def)
    show ?thesis
      unfolding dl read_pass_comment[OF True] by (rule IH)
  next
    case False
    let ?items = "split_fields sp (rstrip l)"
    let ?k = "length (data_lines lines)"
    let ?data = "done @ replicate (Suc ?k) (replicate n 0)"
    have len: "length ?items = n" using Cons.prems(3) False by simp
    have dl: "data_lines (l # lines) = l # data_lines lines"
      using False by (simp add: data_lines_def)
    have row: "?data ! length done = replicate n 0" by (simp add: nth_append)
    have fill: "fill_row conv ?data (length done) 0 ?items =
       (case those (map conv ?items) of
          None \<Rightarrow> Inl (ValueError ''could not convert string'')
        | Some vs \<Rightarrow> Inr ((done @ [vs]) @ replicate ?k (replicate n 0)))"
      by (subst fill_row_those) (simp_all add: row len list_update_append split: option.splits)
    show ?thesis
    proof (cases "those (map conv ?items)")
      case None
      have "read_pass conv sp ?data (length done) (l # lines) =
            Inl (ValueError ''could not convert string'')"
        by (subst read_pass_data_line[OF l False Cons.prems(2)]) (simp only: fill None option.case sum.case)
      then show ?thesis
        unfolding dl using None by (simp add: convert_rows_def)
    next
      case (Some vs)
      have "read_pass conv sp ?data (length done) (l # lines) =
            read_pass conv sp ((done @ [vs]) @ replicate ?k (replicate n 0)) (length (done @ [vs])) lines"
        by (subst read_pass_data_line[OF l False Cons.prems(2)])
           (simp only: fill Some option.case sum.case length_append list.size add_Suc_right add_0_right One_nat_def)
      also note IH[of "done @ [vs]"]
      finally show ?thesis
        unfolding dl using Some by (simp add: convert_rows_def split: option.splits)
    qed
  qed
qed


lemma read_pass_all:
  assumes "[] \<notin> set lines" "sp \<noteq> Some []"
      and "\<forall>l\<in>set lines. \<not> is_comment l \<longrightarrow> length (split_fields sp (rstrip l)) = n"
  shows "read_pass conv sp (replicate (length (data_lines lines)) (replicate n 0)) 0 lines =
           convert_rows conv sp (data_lines lines)"
  using read_pass_convert[OF assms, of conv "[]"] by (simp split: sum.splits)

lemma data_lines_first:
  assumes "\<forall>l\<in>set ps. is_comment l" "\<not> is_comment l0"
  shows "data_lines (ps @ l0 # rest) = l0 # data_lines rest"
  using assms by (simp add: data_lines_def)

lemma read_lines_fixed:
  assumes lines: "lines = ps @ l0 # rest" and ps: "\<forall>l\<in>set ps. is_comment l"
      and l0: "\<not> is_comment l0" and ne: "[] \<notin> set lines"
      and sep: "first_sep sep0 l0 = Inr sp" and sp: "sp \<noteq> Some []"
      and strip: "\<forall>l\<in>set lines. length (split_fields sp (rstrip l)) = length (split_fields sp l)"
  shows "read_lines py_float py_complex lines sep0 = read_with py_float py_complex sp lines"
proof -
  let ?st = "after_first sp l0"
  let ?N = "length (split_fields sp l0)"
  have l0': "l0 \<noteq> []" and rest: "[] \<notin> set rest" using ne lines by auto
  have pos: "0 < N ?st" "sep ?st \<noteq> Some []"
    using first_sep_fields[OF sep sp] sp by (simp_all add: after_first_def Let_def)
  have N: "N ?st = ?N" and S: "sep ?st = sp" by (simp_all add: after_first_def Let_def)
  have rows: "data_lines lines = l0 # data_lines rest"
    unfolding lines using ps l0 by (rule data_lines_first)
  have count: "count_pass (scan0 sep0) lines =
     (if \<forall>l\<in>set rest. \<not> is_comment l \<longrightarrow> length (split_fields sp l) = ?N
      then Inr (?st\<lparr>M := M ?st + length (data_lines rest)\<rparr>)
      else Inl (ValueError ''Badly formatted data file: unequal number of columns''))"
  proof -
    have "count_pass (scan0 sep0) lines = count_pass ?st rest"
      unfolding lines count_pass_first[OF ps l0' l0] using sep sp by simp
    also note count_pass_counted[OF pos rest]
    finally show ?thesis unfolding N S .
  qed
  have bad: "(\<exists>l\<in>set (data_lines lines). length (split_fields sp l) \<noteq> ?N) \<longleftrightarrow>
             \<not> (\<forall>l\<in>set rest. \<not> is_comment l \<longrightarrow> length (split_fields sp l) = ?N)"
    unfolding rows by (auto simp: data_lines_def)
  show ?thesis
  proof (cases "\<forall>l\<in>set rest. \<not> is_comment l \<longrightarrow> length (split_fields sp l) = ?N")
    case False
    have "count_pass (scan0 sep0) lines =
            Inl (ValueError ''Badly formatted data file: unequal number of columns'')"
      unfolding count by (rule if_not_P[OF False])
    then have "read_lines py_float py_complex lines sep0 =
            Inl (ValueError ''Badly formatted data file: unequal number of columns'')"
      by (simp add: read_lines_def)
    moreover have "read_with py_float py_complex sp lines =
            Inl (ValueError ''Badly formatted data file: unequal number of columns'')"
      using False bad by (simp add: read_with_def Let_def rows)
    ultimately show ?thesis by simp
  next
    case True
    let ?st' = "?st\<lparr>M := M ?st + length (data_lines rest)\<rparr>"
    have M: "M ?st' = length (data_lines lines)"
      by (simp add: rows after_first_def Let_def)
    have cols: "\<forall>l\<in>set lines. \<not> is_comment l \<longrightarrow> length (split_fields sp (rstrip l)) = ?N"
      using True strip unfolding lines using ps by auto
    have pass: "\<And>conv. read_pass conv sp (replicate (M ?st') (replicate ?N 0)) 0 lines =
                  convert_rows conv sp (data_lines lines)"
      unfolding M using ne sp cols by (rule read_pass_all)
    have good: "\<not> (\<exists>l\<in>set (data_lines lines). length (split_fields sp l) \<noteq> ?N)"
      using True bad by simp
    have left: "read_lines py_float py_complex lines sep0 =
       (if CHR ''j'' \<in> set (hd (split_fields sp l0)) \<or> CHR ''i'' \<in> set (hd (split_fields sp l0))
        then map_sum id ComplexArray (convert_rows py_complex sp (data_lines lines))
        else map_sum id FloatArray (convert_rows py_float sp (data_lines lines)))"
    proof -
      have c: "count_pass (scan0 sep0) lines = Inr ?st'"
        unfolding count by (rule if_P[OF True])
      have t: "numtype ?st' =
                 Some (if CHR ''j'' \<in> set (hd (split_fields sp l0)) \<or>
                          CHR ''i'' \<in> set (hd (split_fields sp l0))
                       then ''complex'' else ''np.real'')"
        and n: "N ?st' = ?N" and s: "sep ?st' = sp"
        by (simp_all add: after_first_def Let_def)
      show ?thesis
        unfolding read_lines_def c sum.case t option.case n s pass by simp
    qed
    have right: "read_with py_float py_complex sp lines =
       (if CHR ''j'' \<in> set (hd (split_fields sp l0)) \<or> CHR ''i'' \<in> set (hd (split_fields sp l0))
        then map_sum id ComplexArray (convert_rows py_complex sp (data_lines lines))
        else map_sum id FloatArray (convert_rows py_float sp (data_lines lines)))"
      using good unfolding read_with_def Let_def by (simp add: rows)
    show ?thesis unfolding left right ..
  qed
qed

text \<open>
  Claim C9.  With \<open>sep=None\<close> the separator is inferred from the first data line \<open>l0\<close>
  alone: \<open>infer_sep l0\<close> is the first of \<open>,\<close> \<open>;\<close> \<open>:\<close> \<open>|\<close> that splits \<open>l0\<close> into more than
  one field, and white space otherwise.  Unless white space is the fall-back and does
  not split \<open>l0\<close> either (the error of claim C6), the call behaves as \<open>read_with\<close> the
  inferred separator: that one separator splits every data line of the file, in the
  count of the columns and in the conversion of the fields.
\<close>

theorem separator_inferred_from_first_data_line:
  assumes stored: "fs name = Some content"
      and first: "first_data_line (text_lines content) = Some l0"
  shows "file_data_read py_float py_complex fs (Some name) None =
     (if infer_sep l0 = None \<and> length (split_ws [] l0) \<le> 1
      then Inl (ValueError ''Unrecognized column deliminator'')
      else read_with py_float py_complex (infer_sep l0) (text_lines content))"
proof -
  let ?lines = "text_lines content"
  from first obtain ps rest where
    lines: "?lines = ps @ l0 # rest" and l0: "\<not> is_comment l0"
    and ps: "\<forall>l\<in>set ps. is_comment l"
    by (rule first_data_line_split)
  have ne: "[] \<notin> set ?lines" by (rule text_lines_nonempty)
  then have l0': "l0 \<noteq> []" using lines by auto
  have open_file: "file_data_read py_float py_complex fs (Some name) None =
                   read_lines py_float py_complex ?lines None"
    using stored by (simp add: file_data_read_def)
  show ?thesis
  proof (cases "infer_sep l0 = None \<and> length (split_ws [] l0) \<le> 1")
    case True
    then have "find_delim l0 = Inl (ValueError ''Unrecognized column deliminator'')"
      by (simp add: find_delim_infer)
    then have "count_pass (scan0 None) ?lines = Inl (ValueError ''Unrecognized column deliminator'')"
      unfolding lines count_pass_first[OF ps l0' l0] by (simp add: first_sep_def)
    then have "read_lines py_float py_complex ?lines None =
                 Inl (ValueError ''Unrecognized column deliminator'')"
      by (simp add: read_lines_def)
    then show ?thesis unfolding open_file if_P[OF True] .
  next
    case False
    then have sep: "first_sep None l0 = Inr (infer_sep l0)"
      by (simp add: first_sep_def find_delim_infer)
    have inferable: "infer_sep l0 = None \<or> (\<exists>c. infer_sep l0 = Some [c] \<and> \<not> is_space c)"
      by (rule infer_sep_cases)
    then have sp: "infer_sep l0 \<noteq> Some []" by auto
    have strip: "\<forall>l\<in>set ?lines. length (split_fields (infer_sep l0) (rstrip l)) =
                                   length (split_fields (infer_sep l0) l)"
      using length_fields_rstrip[OF inferable] by simp
    have "read_lines py_float py_complex ?lines None =
          read_with py_float py_complex (infer_sep l0) ?lines"
      using lines ps l0 ne sep sp strip by (rule read_lines_fixed)
    then show ?thesis unfolding open_file if_not_P[OF False] .
  qed
qed

theorem separator_inferred_from_first_data_line_witness:
  "file_data_read (\<lambda>s. None) (\<lambda>s. None)
     [''m.dat'' \<mapsto> ''# matrix\<newline>1;2\<newline>3;4\<newline>''] (Some ''m.dat'') None =
   read_with (\<lambda>s. None) (\<lambda>s. None) (Some '';'')
     [''# matrix\<newline>'', ''1;2\<newline>'', ''3;4\<newline>'']"
proof -
  let ?content = "''# matrix\<newline>1;2\<newline>3;4\<newline>''"
  let ?fs = "[''m.dat'' \<mapsto> ?content]"
  have lines: "text_lines ?content = [''# matrix\<newline>'', ''1;2\<newline>'', ''3;4\<newline>'']"
    by code_simp
  have stored: "?fs ''m.dat'' = Some ?content" by simp
  have first: "first_data_line (text_lines ?content) = Some ''1;2\<newline>''"
    unfolding lines by code_simp
  have inferred: "infer_sep ''1;2\<newline>'' = Some '';''"
    by code_simp
  show ?thesis
    using separator_inferred_from_first_data_line
      [where fs = ?fs and name = "''m.dat''" and content = ?content, OF stored first,
       of "\<lambda>s. None" "\<lambda>s. None"]
    unfolding lines inferred by simp
qed

section \<open>Properties of \<open>file_data_store\<close>\<close>














text \<open>
  When the operating system refuses the file, the exception is the one of \<open>open\<close> and the
  file system is left as it was: here a directory of the name does not exist.
\<close>

lemma file_data_store_missing_directory:
  "file_data_store (\<lambda>x. []) (\<lambda>x. []) (\<lambda>name. if name = ''nodir/out.dat'' then Some 2 else None)
     Map.empty (Some ''nodir/out.dat'') (Some \<lparr>np_shape = [1, 1], entry = \<lambda>m n. 0\<rparr>)
     ''int'' ''decimal'' '','' =
   (Some (FileNotFoundError ''nodir/out.dat''), Map.empty)"
  by (simp add: file_data_store_def unpack_pair_def open_w_def os_error_def)

section \<open>Properties of \<open>qsave\<close> and \<open>qload\<close>\<close>















text \<open>
  Nor does it hold when the file cannot be opened for writing.  A null character in
  the name makes \<open>open\<close> raise a \<open>ValueError\<close>, and a directory that does not exist makes it
  raise a \<open>FileNotFoundError\<close>; in both cases nothing is written, and \<open>qload\<close> raises too.
\<close>

lemma qsave_null_byte:
  "qsave (\<lambda>v. Some (show_nat v)) (\<lambda>name. None) Map.empty (42::nat) [CHR ''a'', CHR 0x00, CHR ''b''] =
     (Some (ValueError ''embedded null byte''), Map.empty) \<and>
   qload (\<lambda>b. if b = ''42'' then Some (42::nat) else None) Map.empty [CHR ''a'', CHR 0x00, CHR ''b''] =
     Inl (ValueError ''embedded null byte'')"
proof -
  have "qu_path [CHR ''a'', CHR 0x00, CHR ''b''] =
          Inr \<lparr>anchor = [], parts = [[CHR ''a'', CHR 0x00, CHR ''b'', CHR ''.'', CHR ''q'', CHR ''u'']]\<rparr>"
    by code_simp
  then show ?thesis by (simp add: qsave_def qload_def open_w_def open_r_def fspath_def)
qed

lemma qsave_missing_directory:
  "qsave (\<lambda>v. Some (show_nat v)) (\<lambda>name. if name = ''nodir/x.qu'' then Some 2 else None)
     Map.empty (42::nat) ''nodir/x'' =
     (Some (FileNotFoundError ''nodir/x.qu''), Map.empty) \<and>
   qload (\<lambda>b. if b = ''42'' then Some (42::nat) else None) Map.empty ''nodir/x'' =
     Inl (FileNotFoundError ''nodir/x.qu'')"
proof -
  have "qu_path ''nodir/x'' = Inr \<lparr>anchor = [], parts = [''nodir'', ''x.qu'']\<rparr>"
    by code_simp
  then show ?thesis
    by (simp add: qsave_def qload_def open_w_def open_r_def fspath_def os_error_def)
qed

section \<open>Properties of the stochastic solvers\<close>

lemma length_steps: "length (fst (steps p g s ts)) = length ts - 1"
  by (induction p g s ts rule: steps.induct) (auto simp: Let_def split: prod.splits)

lemma length_cumsum: "length (cumsum a xs) = Suc (length xs)"
  by (induction xs arbitrary: a) auto

lemma length_traj_dW: "length (traj_dW (run_trajectory p sd)) = length (tlist p) - 1"
  using length_steps[of p "rng p sd" "state0 p" "tlist p"]
  by (cases "steps p (rng p sd) (state0 p) (tlist p)") (simp add: run_trajectory_def)

lemma length_traj_m: "length (traj_m (run_trajectory p sd)) = length (tlist p) - 1"
  using length_steps[of p "rng p sd" "state0 p" "tlist p"]
  by (cases "steps p (rng p sd) (state0 p) (tlist p)") (simp add: run_trajectory_def)

lemma per_channel_shape:
  assumes "\<And>j. length (series j) = n"
  shows "has_shape (record_shape p n) (per_channel p series)"
  using assms by (simp add: record_shape_def per_channel_def list_all_iff)

lemma dW_array_shape:
  "has_shape (record_shape p (length (tlist p) - 1)) (dW_array p (run_trajectory p sd))"
  unfolding dW_array_def
  by (rule per_channel_shape) (simp add: series_of_def length_traj_dW)

lemma measurement_array_shape:
  "has_shape (record_shape p (length (tlist p) - 1)) (measurement_array p (run_trajectory p sd))"
  unfolding measurement_array_def
  by (rule per_channel_shape) (simp add: series_of_def length_traj_m)

lemma wiener_array_shape:
  assumes "tlist p \<noteq> []"
  shows "has_shape (record_shape p (length (tlist p))) (wiener_array p (run_trajectory p sd))"
  unfolding wiener_array_def
proof (rule per_channel_shape)
  fix j
  have "0 < length (tlist p)" using assms by simp
  then show "length (cumsum 0 (series_of (traj_dW (run_trajectory p sd)) j)) = length (tlist p)"
    by (simp add: length_cumsum series_of_def length_traj_dW)
qed

text \<open>
  Claim C1.  A solve with \<open>store_measurement\<close> enabled, \<open>k\<close> stochastic channels and a time
  grid of \<open>n\<close> points (at least one) stores for every trajectory a Wiener trace of shape
  \<open>(k, n)\<close> and a \<open>dW\<close> array and a measurement record of shape \<open>(k, n - 1)\<close> with homodyne
  detection, and of shapes \<open>(k, 2, n)\<close> and \<open>(k, 2, n - 1)\<close> with heterodyne detection: the
  axis of size two comes directly after the channel axis.  There is one record for each
  trajectory.
\<close>

theorem measurement_shapes:
  assumes "store_measurement opts" and "tlist p \<noteq> []"
  shows "\<exists>ws ds ms.
           wiener_process (solve p opts entropy ntraj arg) = Some ws \<and>
           dW (solve p opts entropy ntraj arg) = Some ds \<and>
           measurement (solve p opts entropy ntraj arg) = Some ms \<and>
           length ms = length (seeds (solve p opts entropy ntraj arg)) \<and>
           list_all (has_shape (record_shape p (length (tlist p)))) ws \<and>
           list_all (has_shape (record_shape p (length (tlist p) - 1))) ds \<and>
           list_all (has_shape (record_shape p (length (tlist p) - 1))) ms"
  using assms
  by (simp add: solve_def Let_def list_all_iff dW_array_shape measurement_array_shape
        wiener_array_shape del: One_nat_def)


theorem measurement_shapes_witness:
  "let p = \<lparr>n_sc_ops = 1, heterodyne = True, tlist = [0, 1, 2], state0 = (0::real),
              rng = (\<lambda>s. s), increment = (\<lambda>dt (g::nat). (dt, Suc g)),
              integrator = (\<lambda>t dt dw s. s + sum_list dw),
              m_expect = (\<lambda>i t s. s), e_expect = (\<lambda>t s. [s]),
              spawn = (\<lambda>s n. map ((+) s) [0..<n])\<rparr>;
       r = solve p \<lparr>store_measurement = True, store_final_state = True,
                  keep_runs_results = True\<rparr> 7 2 Absent
   in \<exists>ws ds ms.
        wiener_process r = Some ws \<and> dW r = Some ds \<and> measurement r = Some ms \<and>
        length ms = length (seeds r) \<and>
        list_all (has_shape [1, 2, 3]) ws \<and>
        list_all (has_shape [1, 2, 2]) ds \<and>
        list_all (has_shape [1, 2, 2]) ms"
proof -
  let ?p = "\<lparr>n_sc_ops = 1, heterodyne = True, tlist = [0, 1, 2], state0 = (0::real),
              rng = (\<lambda>s. s), increment = (\<lambda>dt (g::nat). (dt, Suc g)),
              integrator = (\<lambda>t dt dw s. s + sum_list dw),
              m_expect = (\<lambda>i t s. s), e_expect = (\<lambda>t s. [s]),
              spawn = (\<lambda>s n. map ((+) s) [0..<n])\<rparr>"
  let ?opts = "\<lparr>store_measurement = True, store_final_state = True,
                  keep_runs_results = True\<rparr>"
  have stored: "store_measurement ?opts" by simp
  have grid: "tlist ?p \<noteq> []" by simp
  have shapes: "record_shape ?p (length (tlist ?p)) = [1, 2, 3]"
    "record_shape ?p (length (tlist ?p) - 1) = [1, 2, 2]"
    by (simp_all add: record_shape_def)
  show ?thesis
    unfolding Let_def
    using measurement_shapes[OF stored grid, of 7 2 Absent] unfolding shapes .
qed

text \<open>
  Claim C4.  When the option \<open>store_measurement\<close> is false, and so when it is left at its
  default, the measurement record, the Wiener trace and \<open>dW\<close> of the result are \<open>None\<close>,
  whatever the detection scheme of the problem.
\<close>

theorem no_measurement_stored:
  "(\<not> store_measurement opts \<longrightarrow>
      measurement (solve p opts entropy ntraj arg) = None \<and>
      wiener_process (solve p opts entropy ntraj arg) = None \<and>
      dW (solve p opts entropy ntraj arg) = None) \<and>
   \<not> store_measurement default_options"
  by (simp add: solve_def Let_def default_options_def)


theorem no_measurement_stored_witness:
  "let p = \<lparr>n_sc_ops = 1, heterodyne = False, tlist = [0, 1, 2], state0 = (0::real),
              rng = (\<lambda>s. s), increment = (\<lambda>dt (g::nat). (dt, Suc g)),
              integrator = (\<lambda>t dt dw s. s + sum_list dw),
              m_expect = (\<lambda>i t s. s), e_expect = (\<lambda>t s. [s]),
              spawn = (\<lambda>s n. map ((+) s) [0..<n])\<rparr>;
       r = solve p default_options 7 2 (SeedInt 1)
   in measurement r = None \<and> wiener_process r = None \<and> dW r = None"
proof -
  let ?p = "\<lparr>n_sc_ops = 1, heterodyne = False, tlist = [0, 1, 2], state0 = (0::real),
              rng = (\<lambda>s. s), increment = (\<lambda>dt (g::nat). (dt, Suc g)),
              integrator = (\<lambda>t dt dw s. s + sum_list dw),
              m_expect = (\<lambda>i t s. s), e_expect = (\<lambda>t s. [s]),
              spawn = (\<lambda>s n. map ((+) s) [0..<n])\<rparr>"
  have off: "\<not> store_measurement default_options"
    by (simp add: default_options_def)
  show ?thesis
    unfolding Let_def
    using no_measurement_stored[of default_options ?p 7 2 "SeedInt 1"] off by blast
qed

text \<open>
  Claim C2.  Run a solve call, with any seed argument, and run the same call again with
  the seeds captured in the result of the first, handed over as the result itself or
  as its seed list; the entropy source may give another value.  The second call has
  the same final states and the same expectation values, for each trajectory and on
  average, as the first; with the seed list the two results are equal.
\<close>

theorem reuse_seeds:
  "final_state (solve p opts entropy2 ntraj (FromResult (solve p opts entropy1 ntraj arg))) =
     final_state (solve p opts entropy1 ntraj arg) \<and>
   runs_expect (solve p opts entropy2 ntraj (FromResult (solve p opts entropy1 ntraj arg))) =
     runs_expect (solve p opts entropy1 ntraj arg) \<and>
   average_expect (solve p opts entropy2 ntraj (FromResult (solve p opts entropy1 ntraj arg))) =
     average_expect (solve p opts entropy1 ntraj arg) \<and>
   solve p opts entropy2 ntraj (SeedList (seeds (solve p opts entropy1 ntraj arg))) =
     solve p opts entropy1 ntraj arg"
  by (simp add: solve_def Let_def realise_seeds_def)

end
